theory Spec2Isabelle
  imports Main
begin

section \<open>Python values, errors and tensors\<close>

text \<open>
  The runners of \<^verbatim>\<open>optimum/onnxruntime/modeling_ort.py\<close> and
  \<^verbatim>\<open>optimum/onnxruntime/modeling_seq2seq.py\<close> are embedded as HOL functions. An
  exception raised by the Python code is a value \<open>Inl e\<close> of the sum type
  \<open>error + 'a\<close>; a normal return is \<open>Inr v\<close>.
\<close>

datatype error =
    KeyError string
  | IndexError
  | TypeError
  | AttributeError
  | ZeroDivisionError
  | RuntimeError
  | UnboundLocalError

text \<open>Sequencing of two steps, the second of which runs only when the first returns.\<close>

definition and_then :: "error + 'a \<Rightarrow> ('a \<Rightarrow> error + 'b) \<Rightarrow> error + 'b" where
  "and_then r f = (case r of Inl e \<Rightarrow> Inl e | Inr v \<Rightarrow> f v)"

text \<open>Element types of the engine, of numpy and of torch are names.\<close>

type_synonym dtype = string

text \<open>
  A tensor is its logical shape together with its elements in row-major order. The
  element type \<open>'a\<close> is left open: no function of the two modules computes on elements.
\<close>

record 'a tensor =
  shape :: "nat list"
  elems :: "'a list"

text \<open>\<^verbatim>\<open>t.size(k)\<close>: the extent of axis \<open>k\<close>; torch raises IndexError out of range.\<close>

definition size_at :: "'a tensor \<Rightarrow> nat \<Rightarrow> error + int" where
  "size_at t k = (if k < length (shape t) then Inr (int (shape t ! k)) else Inl IndexError)"

text \<open>
  A buffer made by \<^verbatim>\<open>torch.empty(n, dtype=..., device=...).contiguous()\<close>: a flat
  block of \<open>n\<close> elements whose contents are not initialised. torch refuses a negative
  size.
\<close>

record buffer =
  numel :: nat
  buffer_dtype :: dtype

definition torch_empty :: "int \<Rightarrow> dtype \<Rightarrow> error + buffer" where
  "torch_empty n ty =
     (if n < 0 then Inl RuntimeError else Inr \<lparr>numel = nat n, buffer_dtype = ty\<rparr>)"

text \<open>
  \<^verbatim>\<open>np.prod(output_shape)\<close> on a tuple of Python integers: numpy multiplies in
  64-bit signed arithmetic, so the product wraps around (\<open>2^63\<close> becomes \<open>-2^63\<close>,
  \<open>2^64\<close> becomes \<open>0\<close>). The entries are tensor sizes and configuration integers,
  which are 64-bit values themselves.
\<close>

definition int64_wrap :: "int \<Rightarrow> int" where
  "int64_wrap x = (x + 2 ^ 63) mod 2 ^ 64 - 2 ^ 63"

definition np_prod :: "int list \<Rightarrow> int" where
  "np_prod s = int64_wrap (prod_list s)"

section \<open>The inference session\<close>

text \<open>
  What was bound for one invocation: each \<^verbatim>\<open>bind_input\<close> call with the name, the
  element type, the shape and the tensor whose pointer is passed, and each
  \<^verbatim>\<open>bind_output\<close> call with the name, the element type, the shape and the buffer
  whose pointer is passed, in call order. (The device arguments of the calls are left
  out.)
\<close>

record 'a input_binding =
  in_name :: string
  in_type :: dtype
  in_shape :: "nat list"
  in_tensor :: "'a tensor"

record output_binding =
  out_name :: string
  out_type :: dtype
  out_shape :: "int list"
  out_buffer :: buffer

record 'a io_binding =
  bound_inputs :: "'a input_binding list"
  bound_outputs :: "output_binding list"

text \<open>
  The engine is outside the two modules. A session gives the names of the inputs and
  outputs its graph declares (in declaration order) and its providers; \<open>run\<close> is
  \<^verbatim>\<open>session.run(None, onnx_inputs)\<close>, which returns the outputs in declaration order;
  \<open>run_with_iobinding\<close> is the bound invocation, which leaves its results in the bound
  output buffers and is given here as the contents of each buffer afterwards, by name.
  \<open>np_type_map\<close> stands for \<^verbatim>\<open>TypeHelper.get_io_numpy_type_map(session)\<close> and
  \<open>output_torch_type\<close> for
  \<^verbatim>\<open>TypeHelper.ort_type_to_torch_type(TypeHelper.get_output_type(session, name))\<close>;
  the helper class is not part of the two modules, so both are parameters.
\<close>

record 'a session =
  get_inputs :: "string list"
  get_outputs :: "string list"
  get_providers :: "string list"
  np_type_map :: "string \<rightharpoonup> dtype"
  output_torch_type :: "string \<Rightarrow> error + dtype"
  run :: "(string \<rightharpoonup> 'a tensor) \<Rightarrow> error + 'a tensor list"
  run_with_iobinding :: "'a io_binding \<Rightarrow> error + (string \<Rightarrow> 'a list)"

text \<open>A dictionary lookup \<^verbatim>\<open>d[k]\<close>, which raises KeyError on a missing key.\<close>

definition lookup :: "(string \<rightharpoonup> 'v) \<Rightarrow> string \<Rightarrow> error + 'v" where
  "lookup d k = (case d k of None \<Rightarrow> Inl (KeyError k) | Some v \<Rightarrow> Inr v)"

section \<open>Single-graph runners (modeling\_ort.py)\<close>

text \<open>
  The fields of \<^verbatim>\<open>ORTModel\<close> that the forward passes read. \<open>name_to_np_type\<close> is
  \<^verbatim>\<open>None\<close> when the instance was built without IO binding. \<open>num_labels\<close> is
  \<^verbatim>\<open>config.num_labels\<close>. \<open>device_type\<close> is \<^verbatim>\<open>self._device.type\<close>, and \<open>None\<close>
  when \<^verbatim>\<open>self._device\<close> is \<^verbatim>\<open>None\<close>.
\<close>

record 'a ort_model =
  model :: "'a session"
  num_labels :: int
  use_io_binding :: bool
  providers :: "string list"
  device_type :: "string option"
  name_to_np_type :: "(string \<rightharpoonup> dtype) option"

text \<open>\<^verbatim>\<open>ORTModelForSequenceClassification.prepare_logits_buffer\<close>\<close>

definition seqcls_prepare_logits_buffer ::
  "'a ort_model \<Rightarrow> int \<Rightarrow> int \<Rightarrow> error + (int list \<times> buffer)" where
  "seqcls_prepare_logits_buffer m batch_size n_labels =
     and_then (output_torch_type (model m) ''logits'') (\<lambda>torch_type.
       let logits_shape = [batch_size, n_labels] in
       and_then (torch_empty (np_prod logits_shape) torch_type) (\<lambda>logits_buffer.
         Inr (logits_shape, logits_buffer)))"

text \<open>\<^verbatim>\<open>ORTModelForTokenClassification.prepare_logits_buffer\<close>\<close>

definition tokcls_prepare_logits_buffer ::
  "'a ort_model \<Rightarrow> int \<Rightarrow> int \<Rightarrow> int \<Rightarrow> error + (int list \<times> buffer)" where
  "tokcls_prepare_logits_buffer m batch_size sequence_length n_labels =
     and_then (output_torch_type (model m) ''logits'') (\<lambda>torch_type.
       let logits_shape = [batch_size, sequence_length, n_labels] in
       and_then (torch_empty (np_prod logits_shape) torch_type) (\<lambda>logits_buffer.
         Inr (logits_shape, logits_buffer)))"

text \<open>\<^verbatim>\<open>ORTModelForMultipleChoice.prepare_logits_buffer\<close>\<close>

definition mc_prepare_logits_buffer ::
  "'a ort_model \<Rightarrow> int \<Rightarrow> int \<Rightarrow> error + (int list \<times> buffer)" where
  "mc_prepare_logits_buffer m batch_size num_choices =
     and_then (output_torch_type (model m) ''logits'') (\<lambda>torch_type.
       let logits_shape = [batch_size, num_choices] in
       and_then (torch_empty (np_prod logits_shape) torch_type) (\<lambda>logits_buffer.
         Inr (logits_shape, logits_buffer)))"

section \<open>Python sequences\<close>

text \<open>
  \<^verbatim>\<open>range(start, stop, step)\<close> for a positive step. (Python refuses the step 0; the
  two modules only use the literal step 4.)
\<close>

function py_range :: "nat \<Rightarrow> nat \<Rightarrow> nat \<Rightarrow> nat list" where
  "py_range start stop step =
     (if step = 0 \<or> stop \<le> start then [] else start # py_range (start + step) stop step)"
  by pat_completeness auto
termination
  by (relation "measure (\<lambda>(start, stop, step). stop - start)") auto

text \<open>The slice \<^verbatim>\<open>xs[i:j]\<close> for indices \<open>0 \<le> i \<le> j\<close>; it never raises.\<close>

definition py_slice :: "'x list \<Rightarrow> nat \<Rightarrow> nat \<Rightarrow> 'x list" where
  "py_slice xs i j = take (j - i) (drop i xs)"

text \<open>The subscript \<^verbatim>\<open>xs[i]\<close> for \<open>0 \<le> i\<close>, which raises IndexError out of range.\<close>

definition py_index :: "'x list \<Rightarrow> nat \<Rightarrow> error + 'x" where
  "py_index xs i = (if i < length xs then Inr (xs ! i) else Inl IndexError)"

text \<open>The test \<^verbatim>\<open>sub in s\<close> on strings.\<close>

fun str_contains :: "string \<Rightarrow> string \<Rightarrow> bool" where
  "str_contains sub [] = (sub = [])"
| "str_contains sub (c # cs) = (take (length sub) (c # cs) = sub \<or> str_contains sub cs)"

text \<open>
  \<^verbatim>\<open>{key.name: idx for idx, key in enumerate(names)}\<close>: a later entry of the same name
  replaces the earlier one, and the keys keep the order of their first insertion.
\<close>

definition enumerate_dict :: "string list \<Rightarrow> (string \<rightharpoonup> nat)" where
  "enumerate_dict names = map_of (rev (zip names [0..<length names]))"

definition dict_keys :: "string list \<Rightarrow> string list" where
  "dict_keys names = rev (remdups (rev names))"

text \<open>A comprehension whose body may raise: the first error ends it.\<close>

fun map_result :: "('x \<Rightarrow> error + 'y) \<Rightarrow> 'x list \<Rightarrow> error + 'y list" where
  "map_result f [] = Inr []"
| "map_result f (x # xs) =
     and_then (f x) (\<lambda>y. and_then (map_result f xs) (\<lambda>ys. Inr (y # ys)))"

section \<open>Tensor operations used by the runners\<close>

text \<open>The \<open>i\<close>-th slice of a tensor along axis 0, as its elements in row-major order.\<close>

definition row :: "'a tensor \<Rightarrow> nat \<Rightarrow> 'a list" where
  "row t i = (let m = prod_list (tl (shape t)) in take m (drop (i * m) (elems t)))"

text \<open>
  \<^verbatim>\<open>t.index_select(0, index)\<close>: the slices of \<open>t\<close> along axis 0 picked by the entries
  of the index vector, in the vector's order. torch raises when an entry is outside
  \<open>0 ..< t.size(0)\<close>. (Every cache tensor has four axes; a tensor with no axis is
  refused here.)
\<close>

definition index_select0 :: "'a tensor \<Rightarrow> int list \<Rightarrow> error + 'a tensor" where
  "index_select0 t index =
     (case shape t of
        [] \<Rightarrow> Inl IndexError
      | n # rest \<Rightarrow>
          if list_all (\<lambda>i. 0 \<le> i \<and> i < int n) index
          then Inr \<lparr>shape = length index # rest,
                    elems = concat (map (\<lambda>i. row t (nat i)) index)\<rparr>
          else Inl IndexError)"



section \<open>Encoder-decoder runners (modeling\_seq2seq.py)\<close>

subsection \<open>The cache: flattening, regrouping, reordering\<close>

text \<open>
  \<^verbatim>\<open>ORTDecoder.forward\<close>, the comprehension that flattens the per-layer cache:
  \<^verbatim>\<open>[past_key_value for pkv_per_layer in past_key_values for past_key_value in pkv_per_layer]\<close>
\<close>

definition flatten_past_key_values :: "'x list list \<Rightarrow> 'x list" where
  "flatten_past_key_values past_key_values = concat past_key_values"

text \<open>
  \<^verbatim>\<open>ORTDecoder.forward\<close>, the regrouping of the flat cache outputs:
  \<^verbatim>\<open>tuple(past_key_values[i : i + num_pkv] for i in range(0, len(past_key_values), num_pkv))\<close>
  with \<^verbatim>\<open>num_pkv = 4\<close>.
\<close>

definition num_pkv :: nat where
  "num_pkv = 4"

definition regroup_past_key_values :: "'x list \<Rightarrow> 'x list list" where
  "regroup_past_key_values past_key_values =
     map (\<lambda>i. py_slice past_key_values i (i + num_pkv))
       (py_range 0 (length past_key_values) num_pkv)"

text \<open>
  \<^verbatim>\<open>ORTModelForSeq2SeqLM._reorder_cache\<close>: the loop over the layers, with the tuple
  built so far as accumulator.
\<close>

fun reorder_layers ::
  "'a tensor list list \<Rightarrow> int list \<Rightarrow> 'a tensor list list \<Rightarrow> error + 'a tensor list list" where
  "reorder_layers [] beam_idx reordered_past = Inr reordered_past"
| "reorder_layers (layer_past # past) beam_idx reordered_past =
     and_then
       (map_result (\<lambda>past_state. index_select0 past_state beam_idx) (py_slice layer_past 0 2))
       (\<lambda>selected.
          reorder_layers past beam_idx
            (reordered_past @ [selected @ py_slice layer_past 2 (length layer_past)]))"

definition seq2seq_reorder_cache ::
  "'a tensor list list \<Rightarrow> int list \<Rightarrow> error + 'a tensor list list" where
  "seq2seq_reorder_cache past beam_idx = reorder_layers past beam_idx []"

text \<open>\<^verbatim>\<open>ORTModelForSpeechSeq2Seq._reorder_cache\<close> has the same body.\<close>

definition speech_reorder_cache ::
  "'a tensor list list \<Rightarrow> int list \<Rightarrow> error + 'a tensor list list" where
  "speech_reorder_cache past beam_idx = reorder_layers past beam_idx []"

subsection \<open>Predicates and functions for stating the reordering\<close>

text \<open>
  A tensor is well formed when it has as many elements as its shape says. An index
  vector can be applied to a tensor when the tensor has an axis 0 and every entry lies
  in \<open>0 ..< size(0)\<close>; \<open>selected\<close> is then the tensor that \<open>index_select0\<close>
  returns, and \<open>reordered_layer\<close> the layer tuple built by one turn of the loop.
\<close>

definition wf_tensor :: "'a tensor \<Rightarrow> bool" where
  "wf_tensor t = (length (elems t) = prod_list (shape t))"

definition selected :: "int list \<Rightarrow> 'a tensor \<Rightarrow> 'a tensor" where
  "selected index t =
     \<lparr>shape = length index # tl (shape t), elems = concat (map (\<lambda>i. row t (nat i)) index)\<rparr>"

definition selectable :: "int list \<Rightarrow> 'a tensor \<Rightarrow> bool" where
  "selectable index t =
     (shape t \<noteq> [] \<and> list_all (\<lambda>i. 0 \<le> i \<and> i < int (hd (shape t))) index)"

definition reordered_layer :: "int list \<Rightarrow> 'a tensor list \<Rightarrow> 'a tensor list" where
  "reordered_layer index layer = map (selected index) (take 2 layer) @ drop 2 layer"

subsection \<open>The decoder\<close>

text \<open>
  The attributes of the normalized configuration that the decoder reads. (The class that
  normalizes a configuration is outside the two modules.)
\<close>

record normalized_config =
  vocab_size :: int
  num_attention_heads :: int
  hidden_size :: int

text \<open>
  The attributes of an \<^verbatim>\<open>ORTDecoder\<close>; \<open>dec_device_type\<close> is
  \<^verbatim>\<open>self._device.type\<close>, and \<open>None\<close> when \<^verbatim>\<open>self._device\<close> is \<^verbatim>\<open>None\<close>.
\<close>

record 'a ort_decoder =
  session :: "'a session"
  normalized_config :: normalized_config
  dec_device_type :: "string option"
  dec_use_io_binding :: bool
  session_inputs :: "string \<rightharpoonup> nat"
  session_outputs :: "string \<rightharpoonup> nat"
  session_input_names :: "string list"
  session_output_names :: "string list"
  key_value_input_names :: "string list"
  key_value_output_names :: "string list"
  dec_name_to_np_type :: "(string \<rightharpoonup> dtype) option"

text \<open>The test \<^verbatim>\<open>".key" in key or ".value" in key\<close>.\<close>

definition is_key_value_name :: "string \<Rightarrow> bool" where
  "is_key_value_name key = (str_contains ''.key'' key \<or> str_contains ''.value'' key)"

text \<open>\<^verbatim>\<open>ORTDecoder.__init__\<close>\<close>

definition ort_decoder_init ::
  "'a session \<Rightarrow> normalized_config \<Rightarrow> string option \<Rightarrow> bool \<Rightarrow> 'a ort_decoder" where
  "ort_decoder_init sess config device io =
     \<lparr>session = sess,
      normalized_config = config,
      dec_device_type = device,
      dec_use_io_binding = io,
      session_inputs = enumerate_dict (get_inputs sess),
      session_outputs = enumerate_dict (get_outputs sess),
      session_input_names = dict_keys (get_inputs sess),
      session_output_names = dict_keys (get_outputs sess),
      key_value_input_names = filter is_key_value_name (dict_keys (get_inputs sess)),
      key_value_output_names = filter is_key_value_name (dict_keys (get_outputs sess)),
      dec_name_to_np_type = (if io then Some (np_type_map sess) else None)\<rparr>"

text \<open>An argument that defaults to \<^verbatim>\<open>None\<close>, used where an integer is needed.\<close>

definition required :: "int option \<Rightarrow> error + int" where
  "required v = (case v of None \<Rightarrow> Inl TypeError | Some n \<Rightarrow> Inr n)"

text \<open>The allocation \<^verbatim>\<open>torch.empty(np.prod(output_shape), ...)\<close> and the returned pair.\<close>

definition allocate :: "int list \<Rightarrow> dtype \<Rightarrow> error + (int list \<times> buffer)" where
  "allocate output_shape torch_type =
     and_then (torch_empty (np_prod output_shape) torch_type) (\<lambda>output_buffer.
       Inr (output_shape, output_buffer))"

text \<open>
  \<^verbatim>\<open>ORTDecoder.prepare_output_buffer\<close>. The integer arguments default to \<^verbatim>\<open>None\<close>.
  A name that is neither \<open>loss\<close> nor \<open>logits\<close> nor a cache name leaves
  \<^verbatim>\<open>output_shape\<close> unassigned, and the return statement raises.
\<close>

definition dec_prepare_output_buffer ::
  "'a ort_decoder \<Rightarrow> string \<Rightarrow> int option \<Rightarrow> int option \<Rightarrow> int option \<Rightarrow> int option \<Rightarrow> bool
     \<Rightarrow> error + (int list \<times> buffer)" where
  "dec_prepare_output_buffer d output_name batch_size sequence_length encoder_sequence_length
       past_sequence_length is_self_attn =
     and_then (output_torch_type (session d) output_name) (\<lambda>torch_type.
       if output_name = ''loss'' then
         and_then (torch_empty 1 torch_type) (\<lambda>output_buffer. Inr ([1], output_buffer))
       else if output_name = ''logits'' then
         and_then (required batch_size) (\<lambda>b.
         and_then (required sequence_length) (\<lambda>s.
           allocate [b, s, vocab_size (normalized_config d)] torch_type))
       else if is_key_value_name output_name then
         (let heads = num_attention_heads (normalized_config d);
              hidden = hidden_size (normalized_config d) in
          if heads = 0 then Inl ZeroDivisionError
          else
            (let embed_size_per_head = hidden div heads in
             if is_self_attn then
               and_then
                 (case past_sequence_length of
                    None \<Rightarrow> Inr sequence_length
                  | Some p \<Rightarrow> and_then (required sequence_length) (\<lambda>s. Inr (Some (s + p))))
                 (\<lambda>sequence_length'.
                    and_then (required batch_size) (\<lambda>b.
                    and_then (required sequence_length') (\<lambda>s.
                      allocate [b, heads, s, embed_size_per_head] torch_type)))
             else
               and_then (required batch_size) (\<lambda>b.
               and_then (required encoder_sequence_length) (\<lambda>e.
                 allocate [b, heads, e, embed_size_per_head] torch_type))))
       else Inl UnboundLocalError)"

text \<open>
  What \<^verbatim>\<open>prepare_io_binding\<close> returns: the binding, and for every bound output the
  shape recorded for the caller and the buffer.
\<close>

record 'a bound =
  io_binding :: "'a io_binding"
  output_shapes :: "string \<rightharpoonup> int list"
  output_buffers :: "string \<rightharpoonup> buffer"

definition bind_input :: "'a io_binding \<Rightarrow> string \<Rightarrow> dtype \<Rightarrow> 'a tensor \<Rightarrow> 'a io_binding" where
  "bind_input io name ty t =
     io\<lparr>bound_inputs := bound_inputs io @
          [\<lparr>in_name = name, in_type = ty, in_shape = shape t, in_tensor = t\<rparr>]\<rparr>"

definition bind_output ::
  "'a io_binding \<Rightarrow> string \<Rightarrow> dtype \<Rightarrow> int list \<Rightarrow> buffer \<Rightarrow> 'a io_binding" where
  "bind_output io name ty shp buf =
     io\<lparr>bound_outputs := bound_outputs io @
          [\<lparr>out_name = name, out_type = ty, out_shape = shp, out_buffer = buf\<rparr>]\<rparr>"

text \<open>\<^verbatim>\<open>self.name_to_np_type[name]\<close>; the table is \<^verbatim>\<open>None\<close> without IO binding.\<close>

definition np_type :: "(string \<rightharpoonup> dtype) option \<Rightarrow> string \<Rightarrow> error + dtype" where
  "np_type table name = (case table of None \<Rightarrow> Inl TypeError | Some d \<Rightarrow> lookup d name)"

text \<open>A method call on an argument that may be \<^verbatim>\<open>None\<close>.\<close>

definition deref :: "'x option \<Rightarrow> error + 'x" where
  "deref v = (case v of None \<Rightarrow> Inl AttributeError | Some x \<Rightarrow> Inr x)"

text \<open>
  The statement pair \<^verbatim>\<open>x = x.contiguous(); io_binding.bind_input(name, x.device.type,
  self._device.index, self.name_to_np_type[name], shape, x.data_ptr())\<close>. The
  arguments are evaluated from the left: the device of the runner is read before the
  table of element types.
\<close>

definition bind_tensor ::
  "string option \<Rightarrow> (string \<rightharpoonup> dtype) option \<Rightarrow> 'a io_binding \<Rightarrow> string
     \<Rightarrow> 'a tensor option \<Rightarrow> error + 'a io_binding" where
  "bind_tensor device table io name arg =
     and_then (deref arg) (\<lambda>t.
     and_then (deref device) (\<lambda>_.
     and_then (np_type table name) (\<lambda>ty.
       Inr (bind_input io name ty t))))"

text \<open>The loop over \<^verbatim>\<open>zip(self.key_value_input_names, past_key_values)\<close>.\<close>

fun bind_past_key_values ::
  "string option \<Rightarrow> (string \<rightharpoonup> dtype) option \<Rightarrow> 'a io_binding
     \<Rightarrow> (string \<times> 'a tensor) list \<Rightarrow> error + 'a io_binding" where
  "bind_past_key_values device table io [] = Inr io"
| "bind_past_key_values device table io ((input_name, past_key_value) # rest) =
     and_then (bind_tensor device table io input_name (Some past_key_value)) (\<lambda>io'.
       bind_past_key_values device table io' rest)"

text \<open>
  One \<^verbatim>\<open>bind_output\<close> call followed by the two assignments to
  \<^verbatim>\<open>output_shapes\<close> and \<^verbatim>\<open>output_buffers\<close>; the shape bound and the shape recorded
  may differ.
\<close>

definition bind_and_record ::
  "string option \<Rightarrow> (string \<rightharpoonup> dtype) option \<Rightarrow> 'a bound \<Rightarrow> string \<Rightarrow> int list
     \<Rightarrow> int list \<Rightarrow> buffer \<Rightarrow> error + 'a bound" where
  "bind_and_record device table st name bound_shape recorded_shape buf =
     and_then (deref device) (\<lambda>_.
     and_then (np_type table name) (\<lambda>ty.
       Inr \<lparr>io_binding = bind_output (io_binding st) name ty bound_shape buf,
            output_shapes = (output_shapes st)(name \<mapsto> recorded_shape),
            output_buffers = (output_buffers st)(name \<mapsto> buf)\<rparr>))"

text \<open>\<^verbatim>\<open>shape[:2] + (-1,) + shape[3:]\<close>\<close>

definition unknown_sequence_length :: "int list \<Rightarrow> int list" where
  "unknown_sequence_length shp = py_slice shp 0 2 @ [- 1] @ py_slice shp 3 (max 3 (length shp))"

text \<open>
  \<^verbatim>\<open>past_key_values[0].size(2) if past_key_values else None\<close>, on the flattened cache.
\<close>

definition past_sequence_length_of :: "'a tensor list option \<Rightarrow> error + int option" where
  "past_sequence_length_of past_key_values =
     (case past_key_values of
        None \<Rightarrow> Inr None
      | Some [] \<Rightarrow> Inr None
      | Some (t # _) \<Rightarrow> and_then (size_at t 2) (\<lambda>n. Inr (Some n)))"

text \<open>
  \<^verbatim>\<open>ORTDecoder.prepare_io_binding\<close>, the list that the loop over the cache outputs
  runs through:
  \<^verbatim>\<open>[names[i : i + num_pkv] for i in range(0, len(names), num_pkv)]\<close>.
\<close>

definition pkv_names_per_layer :: "string list \<Rightarrow> string list list" where
  "pkv_names_per_layer names =
     map (\<lambda>i. py_slice names i (i + num_pkv)) (py_range 0 (length names) num_pkv)"

text \<open>
  One turn of the inner loop \<^verbatim>\<open>for i in range(2)\<close>: the self-attention output
  \<^verbatim>\<open>pkv_names_per_layer[i]\<close> and the cross-attention output
  \<^verbatim>\<open>pkv_names_per_layer[i + 2]\<close> are given a buffer each, bound with the allocated
  shape, and recorded with the sequence length replaced.
\<close>

definition bind_layer_pair ::
  "'a ort_decoder \<Rightarrow> 'a tensor \<Rightarrow> 'a tensor option \<Rightarrow> 'a tensor list option \<Rightarrow> 'a bound
     \<Rightarrow> string list \<Rightarrow> nat \<Rightarrow> error + 'a bound" where
  "bind_layer_pair d input_ids encoder_hidden_states past_key_values st names i =
     and_then (py_index names i) (\<lambda>self_name.
     and_then (size_at input_ids 0) (\<lambda>b.
     and_then (size_at input_ids 1) (\<lambda>s.
     and_then (past_sequence_length_of past_key_values) (\<lambda>past_len.
     and_then (dec_prepare_output_buffer d self_name (Some b) (Some s) None past_len True)
       (\<lambda>(self_pkv_shape, self_pkv_buffer).
     and_then (bind_and_record (dec_device_type d) (dec_name_to_np_type d) st self_name self_pkv_shape
                 (unknown_sequence_length self_pkv_shape) self_pkv_buffer) (\<lambda>st1.
     and_then (py_index names (i + 2)) (\<lambda>cross_name.
     and_then (size_at input_ids 0) (\<lambda>b'.
     and_then (deref encoder_hidden_states) (\<lambda>enc.
     and_then (size_at enc 1) (\<lambda>e.
     and_then (dec_prepare_output_buffer d cross_name (Some b') None (Some e) None False)
       (\<lambda>(cross_pkv_shape, cross_pkv_buffer).
       bind_and_record (dec_device_type d) (dec_name_to_np_type d) st1 cross_name cross_pkv_shape
         (unknown_sequence_length cross_pkv_shape) cross_pkv_buffer)))))))))))"

text \<open>The outer loop over the layers; each layer runs the inner loop for \<open>i = 0, 1\<close>.\<close>

fun bind_key_value_layers ::
  "'a ort_decoder \<Rightarrow> 'a tensor \<Rightarrow> 'a tensor option \<Rightarrow> 'a tensor list option \<Rightarrow> 'a bound
     \<Rightarrow> string list list \<Rightarrow> error + 'a bound" where
  "bind_key_value_layers d input_ids encoder_hidden_states past_key_values st [] = Inr st"
| "bind_key_value_layers d input_ids encoder_hidden_states past_key_values st (names # rest) =
     and_then (bind_layer_pair d input_ids encoder_hidden_states past_key_values st names 0)
       (\<lambda>st1.
     and_then (bind_layer_pair d input_ids encoder_hidden_states past_key_values st1 names 1)
       (\<lambda>st2.
       bind_key_value_layers d input_ids encoder_hidden_states past_key_values st2 rest))"

text \<open>
  \<^verbatim>\<open>ORTDecoder.prepare_io_binding\<close>. The cache argument is the flattened cache, as
  \<^verbatim>\<open>forward\<close> passes it.
\<close>

definition dec_prepare_io_binding ::
  "'a ort_decoder \<Rightarrow> 'a tensor option \<Rightarrow> 'a tensor option \<Rightarrow> 'a tensor option
     \<Rightarrow> 'a tensor list option \<Rightarrow> 'a tensor option \<Rightarrow> error + 'a bound" where
  "dec_prepare_io_binding d input_ids encoder_hidden_states encoder_attention_mask
       past_key_values labels =
     (let table = dec_name_to_np_type d; device = dec_device_type d in
      and_then (deref input_ids) (\<lambda>ids.
      and_then (bind_tensor device table \<lparr>bound_inputs = [], bound_outputs = []\<rparr> ''input_ids''
                  (Some ids)) (\<lambda>io1.
      and_then (if ''encoder_attention_mask'' \<in> set (session_input_names d)
                then bind_tensor device table io1 ''encoder_attention_mask'' encoder_attention_mask
                else Inr io1) (\<lambda>io2.
      and_then (if ''encoder_hidden_states'' \<in> set (session_input_names d)
                then bind_tensor device table io2 ''encoder_hidden_states'' encoder_hidden_states
                else Inr io2) (\<lambda>io3.
      and_then (case past_key_values of
                  None \<Rightarrow> Inr io3
                | Some pkv \<Rightarrow> bind_past_key_values device table io3 (zip (key_value_input_names d) pkv))
        (\<lambda>io4.
      and_then (if ''labels'' \<in> set (session_input_names d)
                then bind_tensor device table io4 ''labels'' labels
                else Inr io4) (\<lambda>io5.
      and_then (size_at ids 0) (\<lambda>b.
      and_then (size_at ids 1) (\<lambda>s.
      and_then (dec_prepare_output_buffer d ''logits'' (Some b) (Some s) None None False)
        (\<lambda>(logits_shape, logits_buffer).
      and_then (bind_and_record device table
                  \<lparr>io_binding = io5, output_shapes = Map.empty, output_buffers = Map.empty\<rparr>
                  ''logits'' logits_shape logits_shape logits_buffer) (\<lambda>st1.
      and_then (if ''loss'' \<in> set (session_output_names d)
                then and_then (dec_prepare_output_buffer d ''loss'' None None None None False)
                       (\<lambda>(loss_shape, loss_buffer).
                          bind_and_record device table st1 ''loss'' loss_shape loss_shape loss_buffer)
                else Inr st1) (\<lambda>st2.
        bind_key_value_layers d ids encoder_hidden_states past_key_values st2
          (pkv_names_per_layer (key_value_output_names d))))))))))))))"

text \<open>
  A cache output is recorded with an unknown sequence length when the binding holds an
  output of that name with a four-axis shape and a buffer of as many elements, the
  caller's table has that shape with the sequence length replaced, and the caller's
  buffer is the bound one.
\<close>

definition recorded_unknown :: "'a bound \<Rightarrow> string \<Rightarrow> bool" where
  "recorded_unknown st name =
     (\<exists>shp buf ty.
        length shp = 4 \<and>
        output_shapes st name = Some [shp ! 0, shp ! 1, - 1, shp ! 3] \<and>
        output_buffers st name = Some buf \<and>
        int (numel buf) = np_prod shp \<and>
        \<lparr>out_name = name, out_type = ty, out_shape = shp, out_buffer = buf\<rparr>
          \<in> set (bound_outputs (io_binding st)))"

section \<open>The runner for custom tasks (modeling\_ort.py)\<close>

text \<open>
  The invocations of the engine that a forward pass makes, in call order: a plain
  \<^verbatim>\<open>session.run(None, onnx_inputs)\<close> with its feed, or a
  \<^verbatim>\<open>session.run_with_iobinding(io_binding)\<close> with its binding.
\<close>

datatype 'a engine_call =
    Run "string \<rightharpoonup> 'a tensor"
  | Run_with_iobinding "'a io_binding"

fun is_plain_run :: "'a engine_call \<Rightarrow> bool" where
  "is_plain_run (Run _) = True"
| "is_plain_run (Run_with_iobinding _) = False"

text \<open>The warnings that the constructors log.\<close>

datatype warning =
    Device_not_inferred
  | Tensorrt_needs_no_io_binding
  | Custom_tasks_without_io_binding

text \<open>
  \<^verbatim>\<open>ORTModel.__init__\<close>. \<^verbatim>\<open>get_device_for_provider\<close> belongs to the utilities
  module, outside the two modules, and is a parameter: it gives the device type of a
  provider, or \<^verbatim>\<open>None\<close>. The constructor of the base class does not set
  \<^verbatim>\<open>name_to_np_type\<close>.
\<close>

definition ort_model_init ::
  "(string \<Rightarrow> string option) \<Rightarrow> 'a session \<Rightarrow> int \<Rightarrow> bool
     \<Rightarrow> error + ('a ort_model \<times> warning list)" where
  "ort_model_init get_device_for_provider sess config_num_labels io =
     and_then (py_index (get_providers sess) 0) (\<lambda>provider.
       let device = get_device_for_provider provider;
           warned_device = (if device = None then [Device_not_inferred] else []);
           tensorrt = (''TensorrtExecutionProvider'' \<in> set (get_providers sess) \<and> io)
       in Inr (\<lparr>model = sess, num_labels = config_num_labels,
                 use_io_binding = (if tensorrt then False else io),
                 providers = get_providers sess, device_type = device,
                 name_to_np_type = None\<rparr>,
               warned_device @ (if tensorrt then [Tensorrt_needs_no_io_binding] else [])))"

text \<open>
  \<^verbatim>\<open>ORTModelForCustomTasks.__init__(self, model=None, config=None, **kwargs)\<close>. The
  keyword \<^verbatim>\<open>use_io_binding\<close> is optional: the base class takes it from
  \<^verbatim>\<open>**kwargs\<close> with the default \<^verbatim>\<open>True\<close>, and
  \<^verbatim>\<open>kwargs.pop("use_io_binding", False)\<close> reads it afterwards with the default
  \<^verbatim>\<open>False\<close>.
\<close>

definition custom_tasks_init ::
  "(string \<Rightarrow> string option) \<Rightarrow> 'a session \<Rightarrow> int \<Rightarrow> bool option
     \<Rightarrow> error + ('a ort_model \<times> warning list)" where
  "custom_tasks_init get_device_for_provider sess config_num_labels kw_use_io_binding =
     and_then (ort_model_init get_device_for_provider sess config_num_labels
                 (case kw_use_io_binding of None \<Rightarrow> True | Some b \<Rightarrow> b)) (\<lambda>(m, warnings).
       Inr (m, warnings @
               (if (case kw_use_io_binding of None \<Rightarrow> False | Some b \<Rightarrow> b)
                then [Custom_tasks_without_io_binding] else [])))"

text \<open>
  The keyword arguments of a forward call: a dictionary from names to values, where a
  value is a tensor or \<^verbatim>\<open>None\<close>.
\<close>

type_synonym 'a kwargs = "string \<rightharpoonup> 'a tensor option"

text \<open>
  \<^verbatim>\<open>ORTModelForCustomTasks._prepare_onnx_inputs\<close>, the loop
  \<^verbatim>\<open>for input in model_inputs.keys(): onnx_inputs[input] =
  kwargs.pop(input).cpu().detach().numpy()\<close>. \<^verbatim>\<open>kwargs.pop(input)\<close> raises
  KeyError for a name that is not a key, and the method call on \<^verbatim>\<open>None\<close> raises
  AttributeError. The copy to a host array keeps the shape and the elements.
\<close>

fun pop_inputs ::
  "string list \<Rightarrow> 'a kwargs \<Rightarrow> (string \<rightharpoonup> 'a tensor) \<Rightarrow> error + (string \<rightharpoonup> 'a tensor)" where
  "pop_inputs [] kwargs onnx_inputs = Inr onnx_inputs"
| "pop_inputs (input # rest) kwargs onnx_inputs =
     (case kwargs input of
        None \<Rightarrow> Inl (KeyError input)
      | Some v \<Rightarrow>
          and_then (deref v) (\<lambda>t.
            pop_inputs rest (kwargs(input := None)) (onnx_inputs(input \<mapsto> t))))"

definition custom_prepare_onnx_inputs ::
  "'a ort_model \<Rightarrow> 'a kwargs \<Rightarrow> error + (string \<rightharpoonup> 'a tensor)" where
  "custom_prepare_onnx_inputs m kwargs =
     pop_inputs (dict_keys (get_inputs (model m))) kwargs Map.empty"

text \<open>
  \<^verbatim>\<open>ORTModelForCustomTasks._prepare_onnx_outputs\<close>: for every item
  \<^verbatim>\<open>(output, idx)\<close> of the dictionary of the declared outputs,
  \<^verbatim>\<open>outputs[output] = torch.from_numpy(onnx_outputs[idx]).to(self.device)\<close>. The
  result is given as the list of its items, in insertion order.
\<close>

definition custom_prepare_onnx_outputs ::
  "'a ort_model \<Rightarrow> 'a tensor list \<Rightarrow> error + (string \<times> 'a tensor) list" where
  "custom_prepare_onnx_outputs m onnx_outputs =
     map_result (\<lambda>output.
         and_then (lookup (enumerate_dict (get_outputs (model m))) output) (\<lambda>idx.
         and_then (py_index onnx_outputs idx) (\<lambda>t. Inr (output, t))))
       (dict_keys (get_outputs (model m)))"

text \<open>
  \<^verbatim>\<open>ORTModelForCustomTasks.forward(self, **kwargs)\<close>, with the invocations of the
  engine it has made. The method assigns no attribute of the runner.
\<close>

definition custom_forward ::
  "'a ort_model \<Rightarrow> 'a kwargs
     \<Rightarrow> (error + (string \<times> 'a tensor) list) \<times> 'a engine_call list" where
  "custom_forward m kwargs =
     (case custom_prepare_onnx_inputs m kwargs of
        Inl e \<Rightarrow> (Inl e, [])
      | Inr onnx_inputs \<Rightarrow>
          (and_then (run (model m) onnx_inputs) (\<lambda>onnx_outputs.
             custom_prepare_onnx_outputs m onnx_outputs),
           [Run onnx_inputs]))"

text \<open>
  The feed of the fallback path: every declared input with the tensor supplied for it,
  and nothing else.
\<close>

definition fallback_feed :: "string list \<Rightarrow> 'a kwargs \<Rightarrow> (string \<rightharpoonup> 'a tensor)" where
  "fallback_feed names kwargs =
     (\<lambda>name. if name \<in> set names then (case kwargs name of None \<Rightarrow> None | Some v \<Rightarrow> v)
             else None)"

section \<open>Optional inputs of the sequence-classification runner and of the encoder\<close>












section \<open>The conditional-generation runner (modeling\_seq2seq.py)\<close>












section \<open>Concrete sessions and runners for the examples\<close>

definition example_session :: "nat session" where
  "example_session =
     \<lparr>get_inputs = [''input_ids'', ''attention_mask''], get_outputs = [''logits''],
      get_providers = [''CPUExecutionProvider''], np_type_map = Map.empty,
      output_torch_type = (\<lambda>_. Inr ''float32''), run = (\<lambda>_. Inr []),
      run_with_iobinding = (\<lambda>_. Inr (\<lambda>_. []))\<rparr>"

definition example_model :: "nat ort_model" where
  "example_model =
     \<lparr>model = example_session, num_labels = 2, use_io_binding = False,
      providers = [''CPUExecutionProvider''], device_type = Some ''cpu'', name_to_np_type = None\<rparr>"

definition example_cache :: "nat tensor list list" where
  "example_cache =
     [[\<lparr>shape = [4, 1], elems = [10, 11, 12, 13]\<rparr>,
       \<lparr>shape = [4, 2], elems = [0, 1, 2, 3, 4, 5, 6, 7]\<rparr>,
       \<lparr>shape = [4, 1], elems = [20, 21, 22, 23]\<rparr>,
       \<lparr>shape = [4, 2], elems = [30, 31, 32, 33, 34, 35, 36, 37]\<rparr>]]"

definition example_decoder_session :: "nat session" where
  "example_decoder_session =
     \<lparr>get_inputs = [''input_ids'', ''encoder_attention_mask'', ''encoder_hidden_states''],
      get_outputs = [''logits'', ''present.0.decoder.key'', ''present.0.decoder.value'',
                     ''present.0.encoder.key'', ''present.0.encoder.value''],
      get_providers = [''CUDAExecutionProvider''],
      np_type_map = (\<lambda>name. Some ''float32''),
      output_torch_type = (\<lambda>_. Inr ''float32''), run = (\<lambda>_. Inr []),
      run_with_iobinding = (\<lambda>_. Inr (\<lambda>_. []))\<rparr>"

definition example_decoder :: "nat ort_decoder" where
  "example_decoder =
     ort_decoder_init example_decoder_session
       \<lparr>vocab_size = 100, num_attention_heads = 8, hidden_size = 512\<rparr> (Some ''cuda'') True"

definition example_ids :: "nat tensor" where
  "example_ids = \<lparr>shape = [2, 1], elems = [7, 9]\<rparr>"

definition example_hidden :: "nat tensor" where
  "example_hidden = \<lparr>shape = [2, 3, 1], elems = [1, 2, 3, 4, 5, 6]\<rparr>"

definition example_custom_session :: "nat session" where
  "example_custom_session =
     \<lparr>get_inputs = [''input_ids'', ''attention_mask''],
      get_outputs = [''last_hidden_state'', ''pooler_output''],
      get_providers = [''CUDAExecutionProvider''], np_type_map = Map.empty,
      output_torch_type = (\<lambda>_. Inr ''float32''),
      run = (\<lambda>feed. case feed ''input_ids'' of
                      None \<Rightarrow> Inl RuntimeError
                    | Some t \<Rightarrow> Inr [t, \<lparr>shape = [1], elems = [0]\<rparr>]),
      run_with_iobinding = (\<lambda>_. Inr (\<lambda>_. []))\<rparr>"

definition example_custom_model :: "nat ort_model" where
  "example_custom_model =
     \<lparr>model = example_custom_session, num_labels = 2, use_io_binding = True,
      providers = [''CUDAExecutionProvider''], device_type = Some ''cuda'',
      name_to_np_type = None\<rparr>"

definition example_device_for_provider :: "string \<Rightarrow> string option" where
  "example_device_for_provider provider =
     (if provider = ''CPUExecutionProvider'' then Some ''cpu'' else Some ''cuda'')"

definition example_kwargs :: "nat kwargs" where
  "example_kwargs = [''input_ids'' \<mapsto> Some \<lparr>shape = [1, 2], elems = [5, 6]\<rparr>]"

definition example_full_kwargs :: "nat kwargs" where
  "example_full_kwargs =
     [''input_ids'' \<mapsto> Some \<lparr>shape = [1, 2], elems = [5, 6]\<rparr>,
      ''attention_mask'' \<mapsto> Some \<lparr>shape = [1, 2], elems = [1, 1]\<rparr>]"










section \<open>Verified properties\<close>

subsection \<open>Logits buffers of the single-graph runners\<close>

lemma int64_wrap_id: "0 \<le> x \<Longrightarrow> x < 2 ^ 63 \<Longrightarrow> int64_wrap x = x"
  by (simp add: int64_wrap_def)

text \<open>
  Outside the 64-bit range the planners follow numpy: at \<open>(2^32, 2^32)\<close> the product
  wraps to \<open>0\<close> and an empty buffer is returned, and at \<open>(2^31, 2^16, 2^16)\<close> it wraps
  to \<open>-2^63\<close> and \<^verbatim>\<open>torch.empty\<close> raises.
\<close>

lemma logits_buffer_wraps:
  "seqcls_prepare_logits_buffer example_model (2 ^ 32) (2 ^ 32) =
     Inr ([2 ^ 32, 2 ^ 32], \<lparr>numel = 0, buffer_dtype = ''float32''\<rparr>) \<and>
   tokcls_prepare_logits_buffer example_model (2 ^ 31) (2 ^ 16) (2 ^ 16) = Inl RuntimeError"
  by (simp add: seqcls_prepare_logits_buffer_def tokcls_prepare_logits_buffer_def
      example_model_def example_session_def and_then_def torch_empty_def np_prod_def
      int64_wrap_def Let_def)

text \<open>
  C7. The planners of the logits buffer return the shape \<open>(batch, num_labels)\<close> for
  sequence classification, \<open>(batch, seq_len, num_labels)\<close> for token classification and
  \<open>(batch, num_choices)\<close> for multiple choice, with a buffer of as many elements as the
  shape has, for every session that declares an element type for its \<open>logits\<close> output
  and all valid sizes: non-negative, with an element count below \<open>2^63\<close>, which the
  64-bit product of \<^verbatim>\<open>np.prod\<close> holds without wrapping. The three scenarios of the
  specification, \<open>(1, 2)\<close>, \<open>(2, 5, 9)\<close> and \<open>(1, 4)\<close>, are the instances of the
  witness. Beyond that range the product wraps, as \<open>logits_buffer_wraps\<close> shows.
\<close>

theorem logits_buffer_shapes:
  assumes "output_torch_type (model m) ''logits'' = Inr ty"
    and "0 \<le> b" and "0 \<le> s" and "0 \<le> n"
    and "b * n < 2 ^ 63" and "b * s * n < 2 ^ 63"
  shows "seqcls_prepare_logits_buffer m b n =
           Inr ([b, n], \<lparr>numel = nat (b * n), buffer_dtype = ty\<rparr>) \<and>
         tokcls_prepare_logits_buffer m b s n =
           Inr ([b, s, n], \<lparr>numel = nat (b * s * n), buffer_dtype = ty\<rparr>) \<and>
         mc_prepare_logits_buffer m b n =
           Inr ([b, n], \<lparr>numel = nat (b * n), buffer_dtype = ty\<rparr>)"
proof -
  have "0 \<le> b * n" "0 \<le> b * (s * n)" using assms by simp_all
  then have "np_prod [b, n] = b * n" "np_prod [b, s, n] = b * s * n"
    using assms(5,6) by (simp_all add: np_prod_def int64_wrap_id mult.assoc)
  moreover have "0 \<le> b * n" "0 \<le> b * s * n" using assms by simp_all
  ultimately show ?thesis
    using assms(1)
    by (simp add: seqcls_prepare_logits_buffer_def tokcls_prepare_logits_buffer_def
        mc_prepare_logits_buffer_def and_then_def torch_empty_def Let_def)
qed

theorem logits_buffer_shapes_witness:
  "map_sum id fst (seqcls_prepare_logits_buffer example_model 1 2) = Inr [1, 2] \<and>
   map_sum id fst (tokcls_prepare_logits_buffer example_model 2 5 9) = Inr [2, 5, 9] \<and>
   map_sum id fst (mc_prepare_logits_buffer example_model 1 4) = Inr [1, 4]"
  using logits_buffer_shapes [of example_model "''float32''" 1 0 2]
    logits_buffer_shapes [of example_model "''float32''" 2 5 9]
    logits_buffer_shapes [of example_model "''float32''" 1 0 4]
  by (simp add: example_model_def example_session_def)

subsection \<open>The cache round trip\<close>

lemma py_range_step:
  "0 < step \<Longrightarrow> start < stop \<Longrightarrow>
   py_range start stop step = start # py_range (start + step) stop step"
  by (subst py_range.simps) simp

lemma py_range_empty: "stop \<le> start \<Longrightarrow> py_range start stop step = []"
  by (subst py_range.simps) simp

lemma regroup_after_prefix:
  assumes "\<forall>layer \<in> set layers. length layer = num_pkv"
  shows "map (\<lambda>i. py_slice (pre @ concat layers) i (i + num_pkv))
           (py_range (length pre) (length (pre @ concat layers)) num_pkv) = layers"
  using assms
proof (induction layers arbitrary: pre)
  case Nil
  then show ?case by (simp add: py_range_empty)
next
  case (Cons layer layers)
  have len: "length layer = num_pkv" using Cons.prems by simp
  have pos: "0 < num_pkv" by (simp add: num_pkv_def)
  have lt: "length pre < length (pre @ concat (layer # layers))"
    using len pos by simp
  have head: "py_slice (pre @ concat (layer # layers)) (length pre) (length pre + num_pkv) = layer"
    using len by (simp add: py_slice_def)
  have tail: "map (\<lambda>i. py_slice ((pre @ layer) @ concat layers) i (i + num_pkv))
           (py_range (length (pre @ layer)) (length ((pre @ layer) @ concat layers)) num_pkv)
         = layers"
    using Cons.IH [of "pre @ layer"] Cons.prems by simp
  show ?case
    using py_range_step [OF pos lt] head tail len by simp
qed

text \<open>
  C2. The decoder flattens the per-layer cache into one sequence and regroups the flat
  sequence of cache outputs into consecutive groups of four. For every cache whose
  layers are 4-tuples (self-key, self-value, cross-key, cross-value), whatever the
  number of layers, regrouping the flattened cache gives the cache back.
\<close>

theorem flatten_regroup_roundtrip:
  assumes "\<forall>layer \<in> set past_key_values. length layer = 4"
  shows "regroup_past_key_values (flatten_past_key_values past_key_values) = past_key_values"
  using regroup_after_prefix [of past_key_values "[]"] assms
  by (simp add: regroup_past_key_values_def flatten_past_key_values_def num_pkv_def)

theorem flatten_regroup_roundtrip_witness:
  "list_all (\<lambda>layer. length layer = 4) [[1, 2, 3, 4], [5, 6, 7, 8 :: nat]] \<and>
   flatten_past_key_values [[1, 2, 3, 4], [5, 6, 7, 8 :: nat]] = [1, 2, 3, 4, 5, 6, 7, 8] \<and>
   regroup_past_key_values [1, 2, 3, 4, 5, 6, 7, 8 :: nat] = [[1, 2, 3, 4], [5, 6, 7, 8]]"
  using flatten_regroup_roundtrip [of "[[1, 2, 3, 4], [5, 6, 7, 8 :: nat]]"]
  by (simp add: flatten_past_key_values_def)

subsection \<open>Beam reordering of the cache\<close>

lemma index_select0_selected:
  "selectable index t \<Longrightarrow> index_select0 t index = Inr (selected index t)"
  by (cases "shape t") (simp_all add: selectable_def index_select0_def selected_def)

lemma map_result_selected:
  "list_all (selectable index) ts \<Longrightarrow>
   map_result (\<lambda>t. index_select0 t index) ts = Inr (map (selected index) ts)"
  by (induction ts) (simp_all add: and_then_def index_select0_selected)

lemma py_slice_take: "py_slice xs 0 n = take n xs"
  by (simp add: py_slice_def)

lemma py_slice_drop: "py_slice xs n (length xs) = drop n xs"
  by (simp add: py_slice_def)

lemma reorder_layers_eq:
  "list_all (\<lambda>layer. list_all (selectable index) (take 2 layer)) past \<Longrightarrow>
   reorder_layers past index acc = Inr (acc @ map (reordered_layer index) past)"
proof (induction past arbitrary: acc)
  case Nil
  then show ?case by simp
next
  case (Cons layer past)
  then show ?case
    by (simp add: and_then_def map_result_selected py_slice_take py_slice_drop reordered_layer_def)
qed

lemma chunk_of_concat:
  "\<forall>x \<in> set xs. length x = m \<Longrightarrow> k < length xs \<Longrightarrow>
   take m (drop (k * m) (concat xs)) = xs ! k"
proof (induction xs arbitrary: k)
  case Nil
  then show ?case by simp
next
  case (Cons x xs)
  show ?case
  proof (cases k)
    case 0
    then show ?thesis using Cons.prems by simp
  next
    case (Suc j)
    then show ?thesis using Cons.prems Cons.IH [of j] by simp
  qed
qed

lemma length_row:
  assumes "wf_tensor t" and "shape t \<noteq> []" and "i < hd (shape t)"
  shows "length (row t i) = prod_list (tl (shape t))"
proof -
  obtain n rest where s: "shape t = n # rest" using assms(2) by (cases "shape t") auto
  have "Suc i * prod_list rest \<le> n * prod_list rest"
    using assms(3) s by (intro mult_le_mono1) simp
  then show ?thesis
    using assms(1) s by (simp add: row_def wf_tensor_def Let_def)
qed

lemma row_selected:
  assumes "wf_tensor t" and "selectable index t" and "k < length index"
  shows "row (selected index t) k = row t (nat (index ! k))"
proof -
  have "\<forall>x \<in> set (map (\<lambda>i. row t (nat i)) index). length x = prod_list (tl (shape t))"
  proof
    fix x assume "x \<in> set (map (\<lambda>i. row t (nat i)) index)"
    then obtain i where i: "i \<in> set index" "x = row t (nat i)" by auto
    then have "0 \<le> i \<and> i < int (hd (shape t))"
      using assms(2) by (simp add: selectable_def list_all_iff)
    then have "nat i < hd (shape t)" by linarith
    then show "length x = prod_list (tl (shape t))"
      using length_row [OF assms(1)] assms(2) i(2) by (simp add: selectable_def)
  qed
  then show ?thesis
    using chunk_of_concat [of "map (\<lambda>i. row t (nat i)) index" "prod_list (tl (shape t))" k] assms(3)
    by (simp add: row_def selected_def Let_def)
qed

lemma length_reordered_layer: "length (reordered_layer index layer) = length layer"
  by (simp add: reordered_layer_def)

lemma reordered_layer_nth:
  assumes "j < length layer"
  shows "reordered_layer index layer ! j =
           (if j < 2 then selected index (layer ! j) else layer ! j)"
proof (cases "j < 2")
  case True
  then show ?thesis
    using assms by (simp add: reordered_layer_def nth_append)
next
  case False
  then have "2 + (j - 2) = j" by simp
  then show ?thesis
    using False assms by (simp add: reordered_layer_def nth_append min_def)
qed

text \<open>
  C3. Beam reordering (\<^verbatim>\<open>_reorder_cache\<close> of both conditional-generation runners):
  for every cache and every index vector whose entries are batch positions of the
  self-attention tensors (every permutation of the batch is one), the result has the
  layers and the tuple lengths of the input; the first two tensors of each layer tuple
  have their axis 0 re-indexed by the vector (slice \<open>k\<close> of the result is slice
  \<open>beam_idx[k]\<close> of the input) and all other axes kept; every further tensor of the
  tuple is the input tensor itself. The witness is the batch of 4 with the permutation
  \<open>[2, 0, 3, 1]\<close>.
\<close>

theorem reorder_cache_reindexes_self_attention:
  assumes "list_all (\<lambda>layer. list_all (\<lambda>t. wf_tensor t \<and> selectable beam_idx t) (take 2 layer)) past"
  shows "\<exists>r. seq2seq_reorder_cache past beam_idx = Inr r \<and>
             speech_reorder_cache past beam_idx = Inr r \<and>
             length r = length past \<and>
             (\<forall>l < length past. length (r ! l) = length (past ! l) \<and>
                (\<forall>j < length (past ! l).
                   (j < 2 \<longrightarrow>
                      shape (r ! l ! j) = length beam_idx # tl (shape (past ! l ! j)) \<and>
                      (\<forall>k < length beam_idx.
                         row (r ! l ! j) k = row (past ! l ! j) (nat (beam_idx ! k)))) \<and>
                   (2 \<le> j \<longrightarrow> r ! l ! j = past ! l ! j)))"
proof -
  let ?r = "map (reordered_layer beam_idx) past"
  have sel: "list_all (\<lambda>layer. list_all (selectable beam_idx) (take 2 layer)) past"
    using assms by (simp add: list_all_iff)
  have run: "reorder_layers past beam_idx [] = Inr ?r"
    using reorder_layers_eq [OF sel, of "[]"] by simp
  have layers: "length (?r ! l) = length (past ! l) \<and>
                (\<forall>j < length (past ! l).
                   (j < 2 \<longrightarrow>
                      shape (?r ! l ! j) = length beam_idx # tl (shape (past ! l ! j)) \<and>
                      (\<forall>k < length beam_idx.
                         row (?r ! l ! j) k = row (past ! l ! j) (nat (beam_idx ! k)))) \<and>
                   (2 \<le> j \<longrightarrow> ?r ! l ! j = past ! l ! j))" if l: "l < length past" for l
  proof (intro conjI allI impI)
    show "length (?r ! l) = length (past ! l)"
      using l by (simp add: length_reordered_layer)
  next
    fix j assume j: "j < length (past ! l)" and j2: "j < 2"
    have nth: "?r ! l ! j = selected beam_idx (past ! l ! j)"
      using l j j2 by (simp add: reordered_layer_nth)
    show "shape (?r ! l ! j) = length beam_idx # tl (shape (past ! l ! j))"
      using nth by (simp add: selected_def)
    have "past ! l \<in> set past" using l by simp
    then have "list_all (\<lambda>t. wf_tensor t \<and> selectable beam_idx t) (take 2 (past ! l))"
      using assms by (simp add: list_all_iff)
    moreover have "past ! l ! j \<in> set (take 2 (past ! l))"
      using j j2 by (auto simp: in_set_conv_nth intro!: exI [of _ j])
    ultimately have ok: "wf_tensor (past ! l ! j)" "selectable beam_idx (past ! l ! j)"
      by (simp_all add: list_all_iff)
    fix k assume "k < length beam_idx"
    then show "row (?r ! l ! j) k = row (past ! l ! j) (nat (beam_idx ! k))"
      using nth row_selected [OF ok] by simp
  next
    fix j assume "j < length (past ! l)" and "2 \<le> j"
    then show "?r ! l ! j = past ! l ! j"
      using l by (simp add: reordered_layer_nth)
  qed
  show ?thesis
    using run layers
    by (intro exI [of _ ?r]) (simp add: seq2seq_reorder_cache_def speech_reorder_cache_def)
qed

theorem reorder_cache_reindexes_self_attention_witness:
  "list_all (\<lambda>layer. list_all (\<lambda>t. wf_tensor t \<and> selectable [2, 0, 3, 1] t) (take 2 layer))
     example_cache \<and>
   (\<exists>r. seq2seq_reorder_cache example_cache [2, 0, 3, 1] = Inr r \<and>
        map (map elems) r =
          [[[12, 10, 13, 11], [4, 5, 0, 1, 6, 7, 2, 3],
            [20, 21, 22, 23], [30, 31, 32, 33, 34, 35, 36, 37]]])"
  using reorder_cache_reindexes_self_attention [of "[2, 0, 3, 1]" example_cache]
  by (simp add: example_cache_def wf_tensor_def selectable_def seq2seq_reorder_cache_def
      and_then_def index_select0_def row_def py_slice_def)

subsection \<open>Cache output buffers of the decoder\<close>

lemma key_value_name_not_fixed:
  "is_key_value_name name \<Longrightarrow> name \<noteq> ''loss'' \<and> name \<noteq> ''logits''"
  by (auto simp: is_key_value_name_def)

lemma allocate_nonneg:
  "0 \<le> prod_list shp \<Longrightarrow> prod_list shp < 2 ^ 63 \<Longrightarrow>
   allocate shp ty = Inr (shp, \<lparr>numel = nat (prod_list shp), buffer_dtype = ty\<rparr>)"
  by (simp add: allocate_def torch_empty_def np_prod_def int64_wrap_id and_then_def)

text \<open>
  C5. Planning of the cache output buffers (\<^verbatim>\<open>ORTDecoder.prepare_output_buffer\<close>):
  for every cache output name, a self-attention key or value is given the shape
  \<open>(batch, num_attention_heads, seq_len + past_len, head_dim)\<close> when a past length is
  passed and \<open>(batch, num_attention_heads, seq_len, head_dim)\<close> when it is not, and a
  cross-attention key or value is given
  \<open>(batch, num_attention_heads, encoder_sequence_length, head_dim)\<close> whatever the
  sequence length and the past length of the step are; \<open>head_dim\<close> is
  \<open>hidden_size // num_attention_heads\<close>, and the buffer has as many elements as the
  shape. This holds for a positive number of heads, non-negative sizes and element
  counts below \<open>2^63\<close>, which the 64-bit product of \<^verbatim>\<open>np.prod\<close> holds without
  wrapping; beyond that range the product wraps, as \<open>cache_buffer_wraps\<close> shows.
\<close>

theorem cache_buffer_shapes:
  assumes name: "is_key_value_name name"
    and ty: "output_torch_type (session d) name = Inr ty"
    and heads: "0 < num_attention_heads (normalized_config d)"
    and hidden: "0 \<le> hidden_size (normalized_config d)"
    and sizes: "0 \<le> b" "0 \<le> s" "0 \<le> p" "0 \<le> e"
    and bounds:
      "b * num_attention_heads (normalized_config d) * (s + p) *
         (hidden_size (normalized_config d) div num_attention_heads (normalized_config d))
         < 2 ^ 63"
      "b * num_attention_heads (normalized_config d) * s *
         (hidden_size (normalized_config d) div num_attention_heads (normalized_config d))
         < 2 ^ 63"
      "b * num_attention_heads (normalized_config d) * e *
         (hidden_size (normalized_config d) div num_attention_heads (normalized_config d))
         < 2 ^ 63"
  shows "dec_prepare_output_buffer d name (Some b) (Some s) enc_len (Some p) True =
           Inr ([b, num_attention_heads (normalized_config d), s + p,
                 hidden_size (normalized_config d) div num_attention_heads (normalized_config d)],
                \<lparr>numel = nat (b * num_attention_heads (normalized_config d) * (s + p) *
                    (hidden_size (normalized_config d) div num_attention_heads (normalized_config d))),
                 buffer_dtype = ty\<rparr>) \<and>
         dec_prepare_output_buffer d name (Some b) (Some s) enc_len None True =
           Inr ([b, num_attention_heads (normalized_config d), s,
                 hidden_size (normalized_config d) div num_attention_heads (normalized_config d)],
                \<lparr>numel = nat (b * num_attention_heads (normalized_config d) * s *
                    (hidden_size (normalized_config d) div num_attention_heads (normalized_config d))),
                 buffer_dtype = ty\<rparr>) \<and>
         dec_prepare_output_buffer d name (Some b) seq_len (Some e) past_len False =
           Inr ([b, num_attention_heads (normalized_config d), e,
                 hidden_size (normalized_config d) div num_attention_heads (normalized_config d)],
                \<lparr>numel = nat (b * num_attention_heads (normalized_config d) * e *
                    (hidden_size (normalized_config d) div num_attention_heads (normalized_config d))),
                 buffer_dtype = ty\<rparr>)"
proof -
  let ?h = "num_attention_heads (normalized_config d)"
  let ?k = "hidden_size (normalized_config d) div ?h"
  have k: "0 \<le> ?k" using heads hidden by (simp add: pos_imp_zdiv_nonneg_iff)
  have h: "0 \<le> ?h" "?h \<noteq> 0" using heads by simp_all
  have nonneg: "0 \<le> prod_list [b, ?h, x, ?k]" if "0 \<le> x" for x
    using that sizes(1) h(1) k by simp
  have below: "prod_list [b, ?h, s + p, ?k] < 2 ^ 63" "prod_list [b, ?h, s, ?k] < 2 ^ 63"
    "prod_list [b, ?h, e, ?k] < 2 ^ 63"
    using bounds by (simp_all add: mult.assoc)
  have fixed: "name \<noteq> ''loss''" "name \<noteq> ''logits''"
    using key_value_name_not_fixed [OF name] by simp_all
  show ?thesis
    using ty name fixed h(2) allocate_nonneg [OF nonneg [of "s + p"] below(1)]
      allocate_nonneg [OF nonneg [of s] below(2)] allocate_nonneg [OF nonneg [of e] below(3)]
      sizes
    by (simp add: dec_prepare_output_buffer_def and_then_def required_def Let_def mult.assoc)
qed

text \<open>
  Outside the 64-bit range the planner follows numpy: with 8 heads and a head dimension
  of 64, the batch \<open>2^55\<close> gives the product \<open>2^64\<close>, which wraps to \<open>0\<close>, and the
  batch \<open>2^54\<close> gives \<open>2^63\<close>, which wraps to \<open>-2^63\<close>, so \<^verbatim>\<open>torch.empty\<close> raises.
\<close>

lemma cache_buffer_wraps:
  "dec_prepare_output_buffer example_decoder ''present.0.decoder.key''
     (Some (2 ^ 55)) (Some 1) None None True =
     Inr ([2 ^ 55, 8, 1, 64], \<lparr>numel = 0, buffer_dtype = ''float32''\<rparr>) \<and>
   dec_prepare_output_buffer example_decoder ''present.0.decoder.key''
     (Some (2 ^ 54)) (Some 1) None None True = Inl RuntimeError"
  by (simp add: dec_prepare_output_buffer_def example_decoder_def example_decoder_session_def
      ort_decoder_init_def is_key_value_name_def allocate_def and_then_def required_def
      torch_empty_def np_prod_def int64_wrap_def Let_def)

theorem cache_buffer_shapes_witness:
  "is_key_value_name ''present.0.decoder.key'' \<and>
   map_sum id fst (dec_prepare_output_buffer example_decoder ''present.0.decoder.key''
      (Some 2) (Some 1) None (Some 5) True) = Inr [2, 8, 6, 64] \<and>
   map_sum id fst (dec_prepare_output_buffer example_decoder ''present.0.decoder.key''
      (Some 2) (Some 3) None None True) = Inr [2, 8, 3, 64] \<and>
   map_sum id fst (dec_prepare_output_buffer example_decoder ''present.0.decoder.key''
      (Some 2) None (Some 7) None False) = Inr [2, 8, 7, 64]"
  using cache_buffer_shapes [of "''present.0.decoder.key''" example_decoder "''float32''" 2 1 5 7 None None None]
    cache_buffer_shapes [of "''present.0.decoder.key''" example_decoder "''float32''" 2 3 5 7 None None None]
  by (simp add: example_decoder_def example_decoder_session_def ort_decoder_init_def
      is_key_value_name_def)

subsection \<open>Recorded shapes of the cache outputs\<close>

lemma and_then_Inr:
  "and_then r f = Inr y \<Longrightarrow> \<exists>x. r = Inr x \<and> f x = Inr y"
  by (cases r) (simp_all add: and_then_def)

lemma and_then_InrE:
  assumes "and_then r f = Inr y"
  obtains x where "r = Inr x" and "f x = Inr y"
  using assms by (cases r) (simp_all add: and_then_def)

lemma unknown_sequence_length_4:
  assumes "length shp = 4"
  shows "unknown_sequence_length shp = [shp ! 0, shp ! 1, - 1, shp ! 3]"
proof -
  obtain a b c d where "shp = [a, b, c, d]"
    using assms by (cases shp; cases "tl shp"; cases "tl (tl shp)"; cases "tl (tl (tl shp))") auto
  then show ?thesis by (simp add: unknown_sequence_length_def py_slice_def)
qed

lemma allocate_Inr:
  "allocate shp ty = Inr (shp', buf) \<Longrightarrow> shp' = shp \<and> int (numel buf) = np_prod shp"
  by (auto simp: allocate_def torch_empty_def and_then_def split: if_splits)

lemma cache_buffer_four_axes:
  assumes "is_key_value_name name"
    and "dec_prepare_output_buffer d name b s e p self = Inr (shp, buf)"
  shows "length shp = 4 \<and> int (numel buf) = np_prod shp"
proof -
  have fixed: "name \<noteq> ''loss''" "name \<noteq> ''logits''"
    using key_value_name_not_fixed [OF assms(1)] by simp_all
  obtain ty where ty: "output_torch_type (session d) name = Inr ty"
    using assms(2) by (auto simp: dec_prepare_output_buffer_def dest: and_then_Inr)
  obtain shp0 where "allocate shp0 ty = Inr (shp, buf)" "length shp0 = 4"
    using assms ty fixed
    by (auto simp: dec_prepare_output_buffer_def and_then_def required_def Let_def
        split: if_splits option.splits sum.splits)
  then show ?thesis using allocate_Inr by fastforce
qed

lemma bind_and_record_unknown:
  assumes "bind_and_record device table st name shp (unknown_sequence_length shp) buf = Inr st'"
    and "length shp = 4" and "int (numel buf) = np_prod shp"
  shows "recorded_unknown st' name \<and>
         (\<forall>other. recorded_unknown st other \<longrightarrow> recorded_unknown st' other)"
proof -
  obtain ty where ty: "np_type table name = Inr ty"
    and st': "st' = \<lparr>io_binding = bind_output (io_binding st) name ty shp buf,
                    output_shapes = (output_shapes st)(name \<mapsto> unknown_sequence_length shp),
                    output_buffers = (output_buffers st)(name \<mapsto> buf)\<rparr>"
    using assms(1) by (auto simp: bind_and_record_def dest!: and_then_Inr)
  have new: "recorded_unknown st' name"
    unfolding recorded_unknown_def
    using assms(2,3) unknown_sequence_length_4 [OF assms(2)]
    by (intro exI [of _ shp] exI [of _ buf] exI [of _ ty]) (simp add: st' bind_output_def)
  have old: "recorded_unknown st' other" if "recorded_unknown st other" for other
  proof (cases "other = name")
    case True
    then show ?thesis using new by simp
  next
    case False
    then show ?thesis
      using that unfolding recorded_unknown_def
      by (auto simp: st' bind_output_def)
  qed
  show ?thesis using new old by blast
qed

lemma bind_layer_pair_records:
  assumes run: "bind_layer_pair d ids enc past st names i = Inr st'"
    and kv: "list_all is_key_value_name names"
  shows "i + 2 < length names \<and> recorded_unknown st' (names ! i) \<and>
         recorded_unknown st' (names ! (i + 2)) \<and>
         (\<forall>other. recorded_unknown st other \<longrightarrow> recorded_unknown st' other)"
proof -
  from run obtain self_name b s past_len self_shape self_buffer st1 cross_name b' e
      cross_shape cross_buffer
    where self_name: "py_index names i = Inr self_name"
      and self_buf: "dec_prepare_output_buffer d self_name (Some b) (Some s) None past_len True
                      = Inr (self_shape, self_buffer)"
      and st1: "bind_and_record (dec_device_type d) (dec_name_to_np_type d) st self_name self_shape
                  (unknown_sequence_length self_shape) self_buffer = Inr st1"
      and cross_name: "py_index names (i + 2) = Inr cross_name"
      and cross_buf: "dec_prepare_output_buffer d cross_name (Some b') None (Some e) None False
                      = Inr (cross_shape, cross_buffer)"
      and st': "bind_and_record (dec_device_type d) (dec_name_to_np_type d) st1 cross_name cross_shape
                  (unknown_sequence_length cross_shape) cross_buffer = Inr st'"
    unfolding bind_layer_pair_def
    by (auto dest!: and_then_Inr simp: split_def)
  have idx: "i + 2 < length names" "self_name = names ! i" "cross_name = names ! (i + 2)"
    using self_name cross_name by (auto simp: py_index_def split: if_splits)
  have names: "is_key_value_name self_name" "is_key_value_name cross_name"
    using kv idx by (simp_all add: list_all_length)
  note a = bind_and_record_unknown [OF st1
      cache_buffer_four_axes [OF names(1) self_buf, THEN conjunct1]
      cache_buffer_four_axes [OF names(1) self_buf, THEN conjunct2]]
  note b = bind_and_record_unknown [OF st'
      cache_buffer_four_axes [OF names(2) cross_buf, THEN conjunct1]
      cache_buffer_four_axes [OF names(2) cross_buf, THEN conjunct2]]
  show ?thesis using a b idx by blast
qed

lemma bind_key_value_layers_ConsE:
  assumes "bind_key_value_layers d ids enc past st (names # groups) = Inr st'"
  obtains st1 st2 where "bind_layer_pair d ids enc past st names 0 = Inr st1"
    and "bind_layer_pair d ids enc past st1 names 1 = Inr st2"
    and "bind_key_value_layers d ids enc past st2 groups = Inr st'"
proof -
  from assms have "and_then (bind_layer_pair d ids enc past st names 0) (\<lambda>st1.
     and_then (bind_layer_pair d ids enc past st1 names 1) (\<lambda>st2.
       bind_key_value_layers d ids enc past st2 groups)) = Inr st'"
    by simp
  then obtain st1 where one: "bind_layer_pair d ids enc past st names 0 = Inr st1"
    and rest: "and_then (bind_layer_pair d ids enc past st1 names 1) (\<lambda>st2.
       bind_key_value_layers d ids enc past st2 groups) = Inr st'"
    by (rule and_then_InrE)
  from rest obtain st2 where "bind_layer_pair d ids enc past st1 names 1 = Inr st2"
    and "bind_key_value_layers d ids enc past st2 groups = Inr st'"
    by (rule and_then_InrE)
  with one that show thesis by blast
qed

lemma four_names:
  assumes "length names = 4" and "name \<in> set names"
  shows "name = names ! 0 \<or> name = names ! 1 \<or> name = names ! 2 \<or> name = names ! 3"
proof -
  obtain a b c e where "names = [a, b, c, e]"
    using assms(1)
    by (cases names; cases "tl names"; cases "tl (tl names)"; cases "tl (tl (tl names))") auto
  then show ?thesis using assms(2) by auto
qed

lemma bind_key_value_layers_records:
  assumes "bind_key_value_layers d ids enc past st groups = Inr st'"
    and "list_all (\<lambda>names. list_all is_key_value_name names \<and> length names \<le> 4) groups"
  shows "(\<forall>other. recorded_unknown st other \<longrightarrow> recorded_unknown st' other) \<and>
         (\<forall>names \<in> set groups. \<forall>name \<in> set names. recorded_unknown st' name)"
  using assms
proof (induction groups arbitrary: st)
  case Nil
  then show ?case by simp
next
  case (Cons names groups)
  from Cons.prems(1) obtain st1 st2
    where one: "bind_layer_pair d ids enc past st names 0 = Inr st1"
      and two: "bind_layer_pair d ids enc past st1 names 1 = Inr st2"
      and rest: "bind_key_value_layers d ids enc past st2 groups = Inr st'"
    by (rule bind_key_value_layers_ConsE)
  have kv: "list_all is_key_value_name names" and le: "length names \<le> 4"
    and others: "list_all (\<lambda>names. list_all is_key_value_name names \<and> length names \<le> 4) groups"
    using Cons.prems(2) by simp_all
  note r1 = bind_layer_pair_records [OF one kv]
  note r2 = bind_layer_pair_records [OF two kv]
  note r3 = Cons.IH [OF rest others]
  have k1: "\<And>other. recorded_unknown st other \<Longrightarrow> recorded_unknown st1 other"
    using r1 by blast
  have k2: "\<And>other. recorded_unknown st1 other \<Longrightarrow> recorded_unknown st2 other"
    using r2 by blast
  have k3: "\<And>other. recorded_unknown st2 other \<Longrightarrow> recorded_unknown st' other"
    using r3 by blast
  have len: "length names = 4" using r2 le by linarith
  have n0: "recorded_unknown st1 (names ! 0)" using r1 by blast
  have n2: "recorded_unknown st1 (names ! 2)" using r1 by (simp add: numeral_2_eq_2)
  have n1: "recorded_unknown st2 (names ! 1)" using r2 by blast
  have n3: "recorded_unknown st2 (names ! 3)" using r2 by (simp add: numeral_3_eq_3)
  have here: "recorded_unknown st' name" if "name \<in> set names" for name
    using four_names [OF len that] k2 [OF n0] k2 [OF n2] n1 n3 k3 by blast
  have keep: "\<forall>other. recorded_unknown st other \<longrightarrow> recorded_unknown st' other"
    using k1 k2 k3 by blast
  have all: "\<forall>group \<in> set (names # groups). \<forall>name \<in> set group. recorded_unknown st' name"
    using r3 here by simp
  show ?case using keep all by blast
qed

lemma concat_slices:
  "0 < step \<Longrightarrow>
   concat (map (\<lambda>i. py_slice xs i (i + step)) (py_range start (length xs) step)) = drop start xs"
proof (induction start "length xs" step rule: py_range.induct)
  case (1 start step)
  show ?case
  proof (cases "start < length xs")
    case True
    have "take step (drop start xs) @ drop (start + step) xs = drop start xs"
      by (metis add.commute append_take_drop_id drop_drop)
    then show ?thesis
      using True 1 by (subst py_range.simps) (simp add: py_slice_def)
  next
    case False
    then show ?thesis by (subst py_range.simps) simp
  qed
qed

lemma list_all_py_slice:
  "list_all P xs \<Longrightarrow> list_all P (py_slice xs i j)"
  unfolding py_slice_def list_all_iff
  by (meson in_set_takeD in_set_dropD)

lemma length_py_slice:
  "length (py_slice xs i (i + n)) \<le> n"
  by (simp add: py_slice_def)

lemma pkv_names_per_layer_groups:
  assumes "list_all P names"
  shows "list_all (\<lambda>group. list_all P group \<and> length group \<le> 4) (pkv_names_per_layer names)"
proof -
  have "list_all P (py_slice names i (i + 4)) \<and> length (py_slice names i (i + 4)) \<le> 4" for i
    using list_all_py_slice [OF assms] length_py_slice by blast
  then show ?thesis
    unfolding pkv_names_per_layer_def num_pkv_def list_all_iff by simp
qed

lemma pkv_names_per_layer_covers:
  "name \<in> set names \<Longrightarrow> \<exists>group \<in> set (pkv_names_per_layer names). name \<in> set group"
proof -
  assume "name \<in> set names"
  moreover have "concat (pkv_names_per_layer names) = names"
    using concat_slices [of num_pkv names 0] by (simp add: pkv_names_per_layer_def num_pkv_def)
  ultimately have "name \<in> set (concat (pkv_names_per_layer names))" by simp
  then show ?thesis by auto
qed

text \<open>
  C6. Whenever \<^verbatim>\<open>ORTDecoder.prepare_io_binding\<close> returns, every cache output of the
  decoder (every name of \<open>key_value_output_names\<close>) has been bound with its allocated
  four-axis shape and a buffer of as many elements as that shape has, and the shape
  recorded in \<open>output_shapes\<close> for the caller is the allocated one with axis 2, the
  sequence length, replaced by \<open>-1\<close>; axes 0, 1 and 3 keep their allocated values.
  The allocated length thus appears only in the binding and in the size of the buffer.
\<close>

theorem cache_shapes_recorded_unknown:
  assumes run: "dec_prepare_io_binding (ort_decoder_init sess config device io) input_ids
                  encoder_hidden_states encoder_attention_mask past_key_values labels = Inr st"
    and name: "name \<in> set (key_value_output_names (ort_decoder_init sess config device io))"
  shows "\<exists>shp buf ty.
           length shp = 4 \<and>
           output_shapes st name = Some [shp ! 0, shp ! 1, - 1, shp ! 3] \<and>
           output_buffers st name = Some buf \<and>
           int (numel buf) = np_prod shp \<and>
           \<lparr>out_name = name, out_type = ty, out_shape = shp, out_buffer = buf\<rparr>
             \<in> set (bound_outputs (io_binding st))"
proof -
  let ?d = "ort_decoder_init sess config device io"
  have kv: "list_all is_key_value_name (key_value_output_names ?d)"
    by (simp add: ort_decoder_init_def list_all_iff)
  from run obtain ids st2
    where "bind_key_value_layers ?d ids encoder_hidden_states past_key_values st2
             (pkv_names_per_layer (key_value_output_names ?d)) = Inr st"
    unfolding dec_prepare_io_binding_def Let_def split_def
    by (elim and_then_InrE) blast
  from bind_key_value_layers_records [OF this pkv_names_per_layer_groups [OF kv]]
    pkv_names_per_layer_covers [OF name]
  have "recorded_unknown st name" by blast
  then show ?thesis by (simp add: recorded_unknown_def)
qed

theorem cache_shapes_recorded_unknown_witness:
  "\<exists>st. dec_prepare_io_binding example_decoder (Some example_ids) (Some example_hidden)
           (Some example_ids) None None = Inr st \<and>
        ''present.0.encoder.value'' \<in> set (key_value_output_names example_decoder) \<and>
        (\<exists>shp buf ty.
           length shp = 4 \<and>
           output_shapes st ''present.0.encoder.value'' = Some [shp ! 0, shp ! 1, - 1, shp ! 3] \<and>
           output_buffers st ''present.0.encoder.value'' = Some buf \<and>
           int (numel buf) = np_prod shp \<and>
           \<lparr>out_name = ''present.0.encoder.value'', out_type = ty, out_shape = shp,
              out_buffer = buf\<rparr> \<in> set (bound_outputs (io_binding st))) \<and>
        output_shapes st ''present.0.encoder.value'' = Some [2, 8, - 1, 64] \<and>
        map_option numel (output_buffers st ''present.0.encoder.value'') = Some 3072"
proof -
  have "\<not> isl (dec_prepare_io_binding example_decoder (Some example_ids) (Some example_hidden)
           (Some example_ids) None None)"
    by code_simp
  then obtain st where run: "dec_prepare_io_binding example_decoder (Some example_ids)
           (Some example_hidden) (Some example_ids) None None = Inr st"
    by (cases "dec_prepare_io_binding example_decoder (Some example_ids) (Some example_hidden)
           (Some example_ids) None None") simp_all
  have name: "''present.0.encoder.value'' \<in> set (key_value_output_names example_decoder)"
    by code_simp
  have "map_sum id (\<lambda>st. (output_shapes st ''present.0.encoder.value'',
            map_option numel (output_buffers st ''present.0.encoder.value'')))
          (dec_prepare_io_binding example_decoder (Some example_ids) (Some example_hidden)
             (Some example_ids) None None) = Inr (Some [2, 8, - 1, 64], Some 3072)"
    by code_simp
  then have recorded: "output_shapes st ''present.0.encoder.value'' = Some [2, 8, - 1, 64]"
      "map_option numel (output_buffers st ''present.0.encoder.value'') = Some 3072"
    by (simp_all add: run)
  show ?thesis
    using cache_shapes_recorded_unknown [OF run [unfolded example_decoder_def]
        name [unfolded example_decoder_def]] run name recorded
    unfolding example_decoder_def by blast
qed

subsection \<open>Missing inputs of the runner for custom tasks\<close>

lemma distinct_dict_keys: "distinct (dict_keys names)"
  by (simp add: dict_keys_def)

lemma set_dict_keys: "set (dict_keys names) = set names"
  by (simp add: dict_keys_def)

lemma pop_inputs_missing:
  assumes "distinct names"
    and "\<exists>name \<in> set names. kwargs name = None"
    and "\<forall>name. kwargs name \<noteq> Some None"
  shows "\<exists>missing \<in> set names. kwargs missing = None \<and>
           pop_inputs names kwargs onnx_inputs = Inl (KeyError missing)"
  using assms
proof (induction names arbitrary: kwargs onnx_inputs)
  case Nil
  then show ?case by simp
next
  case (Cons input rest)
  show ?case
  proof (cases "kwargs input")
    case None
    then show ?thesis by simp
  next
    case (Some v)
    then obtain t where v: "v = Some t"
      using Cons.prems(3) by (cases v) auto
    let ?kwargs = "kwargs(input := None)"
    have "distinct rest" and fresh: "input \<notin> set rest"
      using Cons.prems(1) by simp_all
    moreover have "\<exists>name \<in> set rest. ?kwargs name = None"
      using Cons.prems(2) Some by auto
    moreover have "\<forall>name. ?kwargs name \<noteq> Some None"
      using Cons.prems(3) by simp
    ultimately obtain missing where missing: "missing \<in> set rest" "?kwargs missing = None"
        "pop_inputs rest ?kwargs (onnx_inputs(input \<mapsto> t)) = Inl (KeyError missing)"
      using Cons.IH [of ?kwargs "onnx_inputs(input \<mapsto> t)"] by blast
    have "missing \<noteq> input" using missing(1) fresh by blast
    then have "kwargs missing = None" using missing(2) by simp
    then show ?thesis
      using missing(1,3) Some v by (simp add: and_then_def deref_def)
  qed
qed

text \<open>
  C9. The inputs that the runner for custom tasks requires are the names that the loaded
  graph declares (\<open>get_inputs\<close> of the session). When a declared name is not among
  the keyword arguments of a forward call (whose values are tensors), the call fails
  with the KeyError of \<^verbatim>\<open>kwargs.pop\<close> for a declared name that was not supplied; this
  is the error that the specification calls \<open>MissingInputError\<close>. The engine is not
  invoked by such a call, and the forward pass assigns no attribute of the runner, so
  the session is as it was before.
\<close>

theorem custom_forward_missing_input:
  assumes "name \<in> set (get_inputs (model m))"
    and "kwargs name = None"
    and "\<forall>supplied. kwargs supplied \<noteq> Some None"
  shows "\<exists>missing \<in> set (get_inputs (model m)).
           kwargs missing = None \<and>
           custom_forward m kwargs = (Inl (KeyError missing), [])"
proof -
  have "\<exists>name \<in> set (dict_keys (get_inputs (model m))). kwargs name = None"
    using assms(1,2) set_dict_keys by blast
  from pop_inputs_missing [OF distinct_dict_keys this assms(3), of Map.empty]
  obtain missing where "missing \<in> set (get_inputs (model m))" "kwargs missing = None"
    "custom_prepare_onnx_inputs m kwargs = Inl (KeyError missing)"
    unfolding custom_prepare_onnx_inputs_def set_dict_keys by blast
  then show ?thesis by (auto simp: custom_forward_def)
qed

theorem custom_forward_missing_input_witness:
  "''attention_mask'' \<in> set (get_inputs (model example_custom_model)) \<and>
   example_kwargs ''attention_mask'' = None \<and>
   (\<forall>supplied. example_kwargs supplied \<noteq> Some None) \<and>
   custom_forward example_custom_model example_kwargs =
     (Inl (KeyError ''attention_mask''), [])"
  using custom_forward_missing_input [of "''attention_mask''" example_custom_model example_kwargs]
  by (simp add: example_custom_model_def example_custom_session_def example_kwargs_def)

subsection \<open>The runner for custom tasks runs without IO binding\<close>

lemma pop_inputs_supplied:
  assumes "distinct names"
    and "\<forall>name \<in> set names. \<exists>t. kwargs name = Some (Some t)"
  shows "pop_inputs names kwargs onnx_inputs =
           Inr (\<lambda>name. if name \<in> set names
                       then (case kwargs name of None \<Rightarrow> None | Some v \<Rightarrow> v)
                       else onnx_inputs name)"
  using assms
proof (induction names arbitrary: kwargs onnx_inputs)
  case Nil
  then show ?case by simp
next
  case (Cons input rest)
  obtain t where t: "kwargs input = Some (Some t)"
    using Cons.prems(2) by auto
  let ?kwargs = "kwargs(input := None)"
  have fresh: "input \<notin> set rest" and "distinct rest"
    using Cons.prems(1) by simp_all
  moreover have "\<forall>name \<in> set rest. \<exists>t. ?kwargs name = Some (Some t)"
    using Cons.prems(2) fresh by auto
  ultimately have rest: "pop_inputs rest ?kwargs (onnx_inputs(input \<mapsto> t)) =
      Inr (\<lambda>name. if name \<in> set rest
                  then (case ?kwargs name of None \<Rightarrow> None | Some v \<Rightarrow> v)
                  else (onnx_inputs(input \<mapsto> t)) name)"
    using Cons.IH by blast
  have "(\<lambda>name. if name \<in> set rest
                  then (case ?kwargs name of None \<Rightarrow> None | Some v \<Rightarrow> v)
                  else (onnx_inputs(input \<mapsto> t)) name) =
        (\<lambda>name. if name \<in> set (input # rest)
                  then (case kwargs name of None \<Rightarrow> None | Some v \<Rightarrow> v)
                  else onnx_inputs name)"
    using fresh t by (intro ext) auto
  then show ?case
    using rest t by (simp add: and_then_def deref_def)
qed

lemma custom_prepare_onnx_inputs_supplied:
  assumes "\<forall>name \<in> set (get_inputs (model m)). \<exists>t. kwargs name = Some (Some t)"
  shows "custom_prepare_onnx_inputs m kwargs = Inr (fallback_feed (get_inputs (model m)) kwargs)"
proof -
  have "\<forall>name \<in> set (dict_keys (get_inputs (model m))). \<exists>t. kwargs name = Some (Some t)"
    using assms by (simp add: set_dict_keys)
  from pop_inputs_supplied [OF distinct_dict_keys this, of Map.empty]
  show ?thesis
    by (simp add: custom_prepare_onnx_inputs_def fallback_feed_def set_dict_keys)
qed

lemma map_result_all:
  assumes "\<forall>x \<in> set xs. \<exists>y. f x = Inr y \<and> P x y"
  shows "\<exists>ys. map_result f xs = Inr ys \<and> list_all2 P xs ys"
  using assms
proof (induction xs)
  case Nil
  then show ?case by simp
next
  case (Cons x xs)
  then obtain y ys where "f x = Inr y" "P x y" "map_result f xs = Inr ys" "list_all2 P xs ys"
    by auto
  then show ?case by (simp add: and_then_def)
qed

lemma enumerate_dict_declared:
  assumes "name \<in> set names"
  shows "\<exists>idx < length names. enumerate_dict names name = Some idx"
proof -
  have "name \<in> fst ` set (rev (zip names [0..<length names]))"
    using assms by (simp add: image_iff) (metis fst_conv in_set_impl_in_set_zip1 length_upt minus_nat.diff_0)
  then obtain idx where idx: "enumerate_dict names name = Some idx"
    unfolding enumerate_dict_def by (metis map_of_eq_None_iff not_Some_eq)
  then have "(name, idx) \<in> set (zip names [0..<length names])"
    unfolding enumerate_dict_def by (metis map_of_SomeD set_rev)
  then have "idx < length names"
    by (metis atLeastLessThan_iff in_set_zipE set_upt)
  then show ?thesis using idx by blast
qed

lemma custom_prepare_onnx_outputs_declared:
  assumes "length (get_outputs (model m)) \<le> length onnx_outputs"
  shows "\<exists>items. custom_prepare_onnx_outputs m onnx_outputs = Inr items \<and>
           map fst items = dict_keys (get_outputs (model m)) \<and>
           list_all (\<lambda>(name, t). \<exists>idx. enumerate_dict (get_outputs (model m)) name = Some idx \<and>
                                  py_index onnx_outputs idx = Inr t) items"
proof -
  let ?names = "get_outputs (model m)"
  let ?f = "\<lambda>output.
         and_then (lookup (enumerate_dict ?names) output) (\<lambda>idx.
         and_then (py_index onnx_outputs idx) (\<lambda>t. Inr (output, t)))"
  let ?P = "\<lambda>name item. fst item = name \<and>
              (\<exists>idx. enumerate_dict ?names name = Some idx \<and>
                     py_index onnx_outputs idx = Inr (snd item))"
  have "\<exists>item. ?f name = Inr item \<and> ?P name item" if declared: "name \<in> set (dict_keys ?names)" for name
  proof -
    obtain idx where idx: "idx < length ?names" "enumerate_dict ?names name = Some idx"
      using enumerate_dict_declared [of name ?names] declared by (auto simp: set_dict_keys)
    then have "py_index onnx_outputs idx = Inr (onnx_outputs ! idx)"
      using assms by (simp add: py_index_def)
    then show ?thesis using idx(2) by (simp add: and_then_def lookup_def)
  qed
  then obtain items where items: "map_result ?f (dict_keys ?names) = Inr items"
      "list_all2 ?P (dict_keys ?names) items"
    using map_result_all [of "dict_keys ?names" ?f ?P] by blast
  have "map fst items = dict_keys ?names"
    using items(2) by (induction rule: list_all2_induct) simp_all
  moreover have "list_all (\<lambda>(name, t). \<exists>idx. enumerate_dict ?names name = Some idx \<and>
                                  py_index onnx_outputs idx = Inr t) items"
    using items(2) by (induction rule: list_all2_induct) auto
  ultimately show ?thesis
    using items(1) by (simp add: custom_prepare_onnx_outputs_def)
qed

lemma custom_tasks_init_model:
  assumes "custom_tasks_init get_device_for_provider sess config_num_labels kw = Inr (m, warnings)"
  shows "model m = sess \<and> (kw = Some True \<longrightarrow> Custom_tasks_without_io_binding \<in> set warnings)"
  using assms
  by (auto simp: custom_tasks_init_def ort_model_init_def and_then_def Let_def
      split: sum.splits if_splits)

text \<open>
  C10. The forward pass of the runner for custom tasks never invokes the engine through
  an IO binding: for every runner built by the constructor and all keyword arguments,
  every invocation it makes is a plain \<^verbatim>\<open>run\<close>, and the value of
  \<open>use_io_binding\<close> makes no difference to it (the base constructor stores the flag,
  and no method of this class reads it). When all declared inputs are supplied, the one
  invocation is a plain \<^verbatim>\<open>run\<close> on the feed of exactly the declared inputs, and
  the outputs returned are converted back for all declared outputs, each taken at its
  index. Constructing the runner with \<^verbatim>\<open>use_io_binding=True\<close> logs the warning.
\<close>

theorem custom_tasks_forward_without_io_binding:
  assumes init: "custom_tasks_init get_device_for_provider sess config_num_labels
                   kw_use_io_binding = Inr (m, warnings)"
    and supplied: "\<forall>name \<in> set (get_inputs sess). \<exists>t. kwargs name = Some (Some t)"
    and returned: "length (get_outputs sess) \<le> length onnx_outputs"
  shows "(kw_use_io_binding = Some True \<longrightarrow> Custom_tasks_without_io_binding \<in> set warnings) \<and>
         list_all is_plain_run (snd (custom_forward m any_kwargs)) \<and>
         custom_forward (m\<lparr>use_io_binding := flag\<rparr>) any_kwargs = custom_forward m any_kwargs \<and>
         custom_forward m kwargs =
           (and_then (run sess (fallback_feed (get_inputs sess) kwargs))
              (custom_prepare_onnx_outputs m),
            [Run (fallback_feed (get_inputs sess) kwargs)]) \<and>
         (\<exists>items. custom_prepare_onnx_outputs m onnx_outputs = Inr items \<and>
            map fst items = dict_keys (get_outputs sess) \<and>
            list_all (\<lambda>(name, t). \<exists>idx. enumerate_dict (get_outputs sess) name = Some idx \<and>
                                   py_index onnx_outputs idx = Inr t) items)"
proof -
  note m = custom_tasks_init_model [OF init]
  have warn: "kw_use_io_binding = Some True \<longrightarrow> Custom_tasks_without_io_binding \<in> set warnings"
    using m by blast
  have plain: "list_all is_plain_run (snd (custom_forward m any_kwargs))"
    by (simp add: custom_forward_def split: sum.splits)
  have same: "custom_forward (m\<lparr>use_io_binding := flag\<rparr>) any_kwargs = custom_forward m any_kwargs"
  proof -
    have "custom_prepare_onnx_outputs (m\<lparr>use_io_binding := flag\<rparr>) =
          custom_prepare_onnx_outputs m"
      by (intro ext) (simp add: custom_prepare_onnx_outputs_def)
    then show ?thesis
      by (simp add: custom_forward_def custom_prepare_onnx_inputs_def cong: sum.case_cong)
  qed
  have feed: "custom_prepare_onnx_inputs m kwargs = Inr (fallback_feed (get_inputs sess) kwargs)"
    using custom_prepare_onnx_inputs_supplied [of m kwargs] supplied m by simp
  have call: "custom_forward m kwargs =
           (and_then (run sess (fallback_feed (get_inputs sess) kwargs))
              (custom_prepare_onnx_outputs m),
            [Run (fallback_feed (get_inputs sess) kwargs)])"
    using m by (simp add: custom_forward_def feed)
  have outs: "\<exists>items. custom_prepare_onnx_outputs m onnx_outputs = Inr items \<and>
            map fst items = dict_keys (get_outputs sess) \<and>
            list_all (\<lambda>(name, t). \<exists>idx. enumerate_dict (get_outputs sess) name = Some idx \<and>
                                   py_index onnx_outputs idx = Inr t) items"
    using custom_prepare_onnx_outputs_declared [of m onnx_outputs] returned m by simp
  show ?thesis using warn plain same call outs by blast
qed

theorem custom_tasks_forward_without_io_binding_witness:
  "custom_tasks_init example_device_for_provider example_custom_session 2 (Some True) =
     Inr (example_custom_model, [Custom_tasks_without_io_binding]) \<and>
   list_all (\<lambda>name. \<exists>t. example_full_kwargs name = Some (Some t))
     (get_inputs example_custom_session) \<and>
   use_io_binding example_custom_model \<and>
   custom_forward (example_custom_model\<lparr>use_io_binding := False\<rparr>) example_full_kwargs =
     custom_forward example_custom_model example_full_kwargs \<and>
   custom_forward example_custom_model example_full_kwargs =
     (Inr [(''last_hidden_state'', \<lparr>shape = [1, 2], elems = [5, 6]\<rparr>),
           (''pooler_output'', \<lparr>shape = [1], elems = [0]\<rparr>)],
      [Run (fallback_feed [''input_ids'', ''attention_mask''] example_full_kwargs)])"
proof -
  have init: "custom_tasks_init example_device_for_provider example_custom_session 2 (Some True) =
     Inr (example_custom_model, [Custom_tasks_without_io_binding])"
    by (simp add: custom_tasks_init_def ort_model_init_def example_custom_session_def
        example_custom_model_def example_device_for_provider_def and_then_def py_index_def)
  have supplied: "\<forall>name \<in> set (get_inputs example_custom_session).
      \<exists>t. example_full_kwargs name = Some (Some t)"
    by (simp add: example_custom_session_def example_full_kwargs_def)
  have outputs: "custom_prepare_onnx_outputs example_custom_model
      [\<lparr>shape = [1, 2], elems = [5, 6]\<rparr>, \<lparr>shape = [1], elems = [0]\<rparr>] =
     Inr [(''last_hidden_state'', \<lparr>shape = [1, 2], elems = [5, 6]\<rparr>),
          (''pooler_output'', \<lparr>shape = [1], elems = [0::nat]\<rparr>)]"
    by code_simp
  have ran: "run example_custom_session
               (fallback_feed (get_inputs example_custom_session) example_full_kwargs) =
             Inr [\<lparr>shape = [1, 2], elems = [5, 6]\<rparr>, \<lparr>shape = [1], elems = [0]\<rparr>]"
    by (simp add: example_custom_session_def fallback_feed_def example_full_kwargs_def)
  have names: "get_inputs example_custom_session = [''input_ids'', ''attention_mask'']"
    by (simp add: example_custom_session_def)
  have returned: "length (get_outputs example_custom_session) \<le>
      length [\<lparr>shape = [1, 2], elems = [5, 6::nat]\<rparr>, \<lparr>shape = [1], elems = [0]\<rparr>]"
    by (simp add: example_custom_session_def)
  have flag: "use_io_binding example_custom_model"
    by (simp add: example_custom_model_def)
  note forward = custom_tasks_forward_without_io_binding [OF init supplied returned,
      where any_kwargs = example_full_kwargs and flag = False]
  from forward have same:
    "custom_forward (example_custom_model\<lparr>use_io_binding := False\<rparr>) example_full_kwargs =
     custom_forward example_custom_model example_full_kwargs"
    by blast
  from forward have "custom_forward example_custom_model example_full_kwargs =
     (and_then (run example_custom_session
                  (fallback_feed (get_inputs example_custom_session) example_full_kwargs))
        (custom_prepare_onnx_outputs example_custom_model),
      [Run (fallback_feed (get_inputs example_custom_session) example_full_kwargs)])"
    by blast
  then have call: "custom_forward example_custom_model example_full_kwargs =
     (Inr [(''last_hidden_state'', \<lparr>shape = [1, 2], elems = [5, 6]\<rparr>),
           (''pooler_output'', \<lparr>shape = [1], elems = [0]\<rparr>)],
      [Run (fallback_feed [''input_ids'', ''attention_mask''] example_full_kwargs)])"
    using outputs by (simp add: ran and_then_def flip: names)
  show ?thesis
    using init supplied flag same call by (simp add: list_all_iff)
qed

subsection \<open>Which optional inputs reach the engine\<close>


















subsection \<open>Which decoder a forward call of the conditional-generation runner invokes\<close>























end
